theory Spec2Isabelle
  imports Main "HOL-Library.Sublist"
begin

section \<open>JavaScript values used by the plugin\<close>

text \<open>
  The plugin (\<^verbatim>\<open>src/index.js\<close>) works on JavaScript strings, on plain objects used
  as dictionaries and on one process-wide \<^verbatim>\<open>Map\<close> of counters.

  Strings are modelled as \<^typ>\<open>string\<close>. The characters of that type are the code
  units below 256; of the four line terminators of ECMAScript only line feed and carriage
  return are among them (U+2028 and U+2029 are not).

  A counter is a JavaScript number. Starting from an empty \<^verbatim>\<open>Map\<close> the code only
  ever adds or subtracts one, so a counter is an integer (exact in a double below
  \<open>2^53\<close> in magnitude, which no run of builds reaches) or \<^verbatim>\<open>NaN\<close>, the value of
  \<^verbatim>\<open>undefined - 1\<close>.
\<close>

datatype jsnum = Num int | NaN

text \<open>\<^verbatim>\<open>x - 1\<close> where \<^verbatim>\<open>x\<close> is the result of \<^verbatim>\<open>Map.get\<close>: \<open>None\<close> is \<^verbatim>\<open>undefined\<close>.\<close>

fun js_minus_one :: "jsnum option \<Rightarrow> jsnum" where
  "js_minus_one None = NaN"
| "js_minus_one (Some NaN) = NaN"
| "js_minus_one (Some (Num n)) = Num (n - 1)"

text \<open>\<^verbatim>\<open>x || 0\<close>: \<^verbatim>\<open>undefined\<close>, \<^verbatim>\<open>NaN\<close> and \<^verbatim>\<open>0\<close> are falsy.\<close>

fun js_or_zero :: "jsnum option \<Rightarrow> jsnum" where
  "js_or_zero None = Num 0"
| "js_or_zero (Some NaN) = Num 0"
| "js_or_zero (Some (Num n)) = Num n"

fun js_plus_one :: "jsnum \<Rightarrow> jsnum" where
  "js_plus_one NaN = NaN"
| "js_plus_one (Num n) = Num (n + 1)"

text \<open>String conversion of a value that may be \<^verbatim>\<open>undefined\<close>, as \<^verbatim>\<open>+\<close> does it.\<close>

fun js_to_string :: "string option \<Rightarrow> string" where
  "js_to_string None = ''undefined''"
| "js_to_string (Some s) = s"

subsection \<open>String operations\<close>

definition line_terminator :: "char \<Rightarrow> bool" where
  "line_terminator c = (c = CHR 0x0A \<or> c = CHR 0x0D)"

text \<open>
  \<^verbatim>\<open>filepath.replace(/\?.*/, '')\<close>: the leftmost match starts at the first question
  mark and runs over every following character that is not a line terminator; only that
  first match is replaced.
\<close>

definition strip_query :: "string \<Rightarrow> string" where
  "strip_query s =
     (case dropWhile (\<lambda>c. c \<noteq> CHR ''?'') s of
        [] \<Rightarrow> s
      | q # rest \<Rightarrow> takeWhile (\<lambda>c. c \<noteq> CHR ''?'') s @ dropWhile (\<lambda>c. \<not> line_terminator c) rest)"

text \<open>\<^verbatim>\<open>s.split(sep)\<close> for a one-character separator: never the empty array.\<close>

fun split_on :: "char \<Rightarrow> string \<Rightarrow> string list" where
  "split_on sep [] = [[]]"
| "split_on sep (c # cs) =
     (if c = sep then [] # split_on sep cs
      else (case split_on sep cs of
              [] \<Rightarrow> [[c]]
            | seg # segs \<Rightarrow> (c # seg) # segs))"

text \<open>\<^verbatim>\<open>Array.prototype.pop\<close>: the last element (\<^verbatim>\<open>undefined\<close> on an empty array) and
  the array that is left.\<close>

fun pop :: "'a list \<Rightarrow> 'a option \<times> 'a list" where
  "pop [] = (None, [])"
| "pop (x # xs) = (if xs = [] then (Some x, []) else (fst (pop xs), x # snd (pop xs)))"

text \<open>\<^verbatim>\<open>s.indexOf(t)\<close>: the first position where \<open>t\<close> occurs in \<open>s\<close>, or \<open>-1\<close>.\<close>

fun indexOf_from :: "nat \<Rightarrow> string \<Rightarrow> string \<Rightarrow> int" where
  "indexOf_from i [] t = (if t = [] then int i else - 1)"
| "indexOf_from i (c # cs) t =
     (if prefix t (c # cs) then int i else indexOf_from (Suc i) cs t)"

definition indexOf :: "string \<Rightarrow> string \<Rightarrow> int" where
  "indexOf s t = indexOf_from 0 s t"

text \<open>\<^verbatim>\<open>s.replace(/\\/g, '/')\<close>: every backslash becomes a forward slash.\<close>

definition replace_backslashes :: "string \<Rightarrow> string" where
  "replace_backslashes s = map (\<lambda>c. if c = CHR 0x5C then CHR ''/'' else c) s"

section \<open>Options and file types\<close>

text \<open>
  The default of \<^verbatim>\<open>transformExtensions\<close> is \<^verbatim>\<open>/^(gz|map)$/i\<close>: the whole string is
  \<^verbatim>\<open>gz\<close> or \<^verbatim>\<open>map\<close>, each letter in either case. The pattern has no \<^verbatim>\<open>g\<close> or
  \<^verbatim>\<open>y\<close> flag, so \<^verbatim>\<open>test\<close> keeps no state; a configured pattern is modelled the same
  way, as a predicate on strings.
\<close>

definition either_case :: "char \<Rightarrow> char \<Rightarrow> char \<Rightarrow> bool" where
  "either_case lower upper c = (c = lower \<or> c = upper)"

fun transformExtensions_default :: "string \<Rightarrow> bool" where
  "transformExtensions_default [a, b] =
     (either_case CHR ''g'' CHR ''G'' a \<and> either_case CHR ''z'' CHR ''Z'' b)"
| "transformExtensions_default [a, b, c] =
     (either_case CHR ''m'' CHR ''M'' a \<and> either_case CHR ''a'' CHR ''A'' b
      \<and> either_case CHR ''p'' CHR ''P'' c)"
| "transformExtensions_default _ = False"

text \<open>\<^verbatim>\<open>getFileType\<close> (lines 49 to 60), with the pattern of the options as \<open>te\<close>.\<close>

definition getFileType :: "(string \<Rightarrow> bool) \<Rightarrow> string \<Rightarrow> string" where
  "getFileType te filepath =
     (let filepath' = strip_query filepath;
          split = split_on CHR ''.'' filepath';
          extname = js_to_string (fst (pop split));
          split' = snd (pop split)
      in if te extname
         then js_to_string (fst (pop split')) @ ''.'' @ extname
         else extname)"

section \<open>Data of the build engine and of the plugin\<close>

text \<open>
  A chunk of the engine: its name (absent, \<^verbatim>\<open>null\<close> or a string), its files, and
  the three ways the engine versions tell whether it is initial: the methods
  \<^verbatim>\<open>isOnlyInitial\<close> and \<^verbatim>\<open>isInitial\<close> (\<open>None\<close> when the engine has no such
  method, else the result of the call) and the property \<^verbatim>\<open>initial\<close>.
\<close>

record chunk =
  chunk_name :: "string option"
  chunk_files :: "string list"
  chunk_isOnlyInitial :: "bool option"
  chunk_isInitial :: "bool option"
  chunk_initial :: "bool option"

datatype chunk_id = NumId int | StrId string

text \<open>An entry of \<^verbatim>\<open>stats.assets\<close>: its name and the ids of the chunks it belongs to.\<close>

record asset =
  asset_name :: string
  asset_chunks :: "chunk_id list"

text \<open>
  The objects built at lines 100 to 112, 122 to 129 and 138 to 145. An entry made from
  an asset has no \<^verbatim>\<open>chunk\<close> property.
\<close>

record file_entry =
  path :: string
  chunk :: "chunk option"
  name :: string
  isInitial :: "bool option"
  isChunk :: bool
  isAsset :: bool
  isModuleAsset :: bool

text \<open>
  The manifest of the default builder is a plain object with string values; the seed and
  the result of a configured generator are typed the same way. A plain object is modelled
  by its own properties, a map from strings; it inherits from \<^verbatim>\<open>Object.prototype\<close>, as
  \<^verbatim>\<open>{}\<close> and every object literal do.
\<close>

type_synonym manifest = "string \<rightharpoonup> string"

text \<open>
  \<^verbatim>\<open>object[key] = value\<close> for a string value, as at lines 74 and 203. Every name
  stores an own property, but \<^verbatim>\<open>__proto__\<close>: on an object without an own property of
  that name the assignment reaches the setter of \<^verbatim>\<open>Object.prototype\<close>, which ignores
  a value that is neither an object nor \<^verbatim>\<open>null\<close>, so nothing is stored.
\<close>

definition obj_set :: "(string \<rightharpoonup> string) \<Rightarrow> string \<Rightarrow> string \<Rightarrow> (string \<rightharpoonup> string)" where
  "obj_set object key v =
     (if key = ''__proto__'' \<and> object key = None then object else object(key \<mapsto> v))"

text \<open>
  The options (lines 25 to 40). \<open>None\<close> is \<^verbatim>\<open>null\<close> or \<^verbatim>\<open>undefined\<close>. The
  callbacks of \<^verbatim>\<open>Array.prototype.filter\<close> and \<^verbatim>\<open>map\<close> receive the element, its
  index and the array. The functions a user configures are taken to return and to change
  nothing.
\<close>

record options =
  publicPath :: "string option"
  basePath :: "string option"
  fileName :: string
  transformExtensions :: "string \<Rightarrow> bool"
  writeToFileEmit :: bool
  seed :: "manifest option"
  filter_opt :: "(file_entry \<Rightarrow> nat \<Rightarrow> file_entry list \<Rightarrow> bool) option"
  map_opt :: "(file_entry \<Rightarrow> nat \<Rightarrow> file_entry list \<Rightarrow> file_entry) option"
  generate :: "(manifest \<Rightarrow> file_entry list \<Rightarrow> manifest) option"
  sort_opt :: "(file_entry \<Rightarrow> file_entry \<Rightarrow> int) option"
  serialize :: "manifest \<Rightarrow> string"

text \<open>
  What the plugin calls and does not define: Node's \<^verbatim>\<open>path\<close> module,
  \<^verbatim>\<open>Array.prototype.sort\<close> with a comparator, and \<^verbatim>\<open>JSON.stringify(manifest, null, 2)\<close>.
  The development is parametric in them.
\<close>

record host =
  path_join :: "string \<Rightarrow> string \<Rightarrow> string"
  path_resolve :: "string \<Rightarrow> string \<Rightarrow> string"
  path_relative :: "string \<Rightarrow> string \<Rightarrow> string"
  path_dirname :: "string \<Rightarrow> string"
  path_basename :: "string \<Rightarrow> string"
  array_sort :: "(file_entry \<Rightarrow> file_entry \<Rightarrow> int) \<Rightarrow> file_entry list \<Rightarrow> file_entry list"
  json_stringify :: "manifest \<Rightarrow> string"

text \<open>The constructor's defaults (lines 26 to 38).\<close>

definition default_options :: "host \<Rightarrow> options" where
  "default_options h =
     \<lparr>publicPath = None,
      basePath = Some [],
      fileName = ''manifest.json'',
      transformExtensions = transformExtensions_default,
      writeToFileEmit = False,
      seed = None,
      filter_opt = None,
      map_opt = None,
      generate = None,
      sort_opt = None,
      serialize = json_stringify h\<rparr>"

text \<open>The variables that \<^verbatim>\<open>apply\<close> closes over (lines 67 to 71).\<close>

record plugin =
  options :: options
  outputFolder :: string
  outputFile :: string
  outputName :: string
  moduleAssets :: "string \<rightharpoonup> string"

definition apply_plugin :: "host \<Rightarrow> options \<Rightarrow> string \<Rightarrow> plugin" where
  "apply_plugin h opts folder =
     \<lparr>options = opts,
      outputFolder = folder,
      outputFile = path_resolve h folder (fileName opts),
      outputName = path_relative h folder (path_resolve h folder (fileName opts)),
      moduleAssets = Map.empty\<rparr>"

text \<open>\<^verbatim>\<open>moduleAsset\<close> (lines 73 to 75), called with the module's \<^verbatim>\<open>userRequest\<close>.\<close>

definition moduleAsset :: "host \<Rightarrow> plugin \<Rightarrow> string \<Rightarrow> string \<Rightarrow> plugin" where
  "moduleAsset h p userRequest file =
     p\<lparr>moduleAssets :=
         obj_set (moduleAssets p) file
           (path_join h (path_dirname h file) (path_basename h userRequest))\<rparr>"

text \<open>
  What \<^verbatim>\<open>emit\<close> reads of a compilation: the chunks, \<^verbatim>\<open>getStats().toJson().assets\<close>,
  \<^verbatim>\<open>options.output.publicPath\<close>, and the assets collection it writes into (the text
  that \<^verbatim>\<open>source()\<close> returns, by asset name; \<^verbatim>\<open>size()\<close> is its length). The
  collection is the engine's, so storing an asset under a name is the engine's operation,
  modelled as the update of a map.
\<close>

record compilation =
  chunks :: "chunk list"
  stats_assets :: "asset list"
  output_publicPath :: "string option"
  assets :: "string \<rightharpoonup> string"

text \<open>
  The state outside a build: the module-level \<^verbatim>\<open>emitCountMap\<close> and the calls of
  \<^verbatim>\<open>fs.outputFileSync\<close> so far (file and content, oldest first).
\<close>

record world =
  emitCountMap :: "string \<rightharpoonup> jsnum"
  written :: "(string \<times> string) list"

section \<open>The asset classifier\<close>

text \<open>The value of \<^verbatim>\<open>isInitial\<close> (lines 104 to 108).\<close>

definition chunk_initial_flag :: "chunk \<Rightarrow> bool option" where
  "chunk_initial_flag c =
     (case chunk_isOnlyInitial c of
        Some b \<Rightarrow> Some b
      | None \<Rightarrow> (case chunk_isInitial c of Some b \<Rightarrow> Some b | None \<Rightarrow> chunk_initial c))"

text \<open>The inner callback of the first \<^verbatim>\<open>reduce\<close> (lines 87 to 113).\<close>

definition chunk_file :: "(string \<Rightarrow> bool) \<Rightarrow> chunk \<Rightarrow> file_entry list \<Rightarrow> string \<Rightarrow> file_entry list" where
  "chunk_file te c files p =
     files @
     [\<lparr>path = p,
       chunk = Some c,
       name = (case chunk_name c of
                 None \<Rightarrow> p
               | Some n \<Rightarrow> if n \<noteq> [] then n @ ''.'' @ getFileType te p else p),
       isInitial = chunk_initial_flag c,
       isChunk = True,
       isAsset = False,
       isModuleAsset = False\<rparr>]"

definition classify_chunks :: "(string \<Rightarrow> bool) \<Rightarrow> chunk list \<Rightarrow> file_entry list" where
  "classify_chunks te cs = foldl (\<lambda>files c. foldl (chunk_file te c) files (chunk_files c)) [] cs"

text \<open>
  The callback of the second \<^verbatim>\<open>reduce\<close> (lines 118 to 146). The lookup is that of
  the keys stored in \<^verbatim>\<open>moduleAssets\<close>. For an asset whose name is not a stored key but
  a member that every object inherits (\<^verbatim>\<open>constructor\<close>, \<^verbatim>\<open>toString\<close>,
  \<^verbatim>\<open>__proto__\<close> and the like) the source finds that member, gives the entry a name
  that is not a string, and \<^verbatim>\<open>path.join\<close> throws on it in the filter that follows.
  Such a run of \<^verbatim>\<open>emit\<close> returns nothing; what is proved below is about the runs
  that return.
\<close>

definition plain_asset_file :: "file_entry list \<Rightarrow> asset \<Rightarrow> file_entry list" where
  "plain_asset_file files a =
     (if length (asset_chunks a) > 0 then files
      else files @
           [\<lparr>path = asset_name a,
             chunk = None,
             name = asset_name a,
             isInitial = Some False,
             isChunk = False,
             isAsset = True,
             isModuleAsset = False\<rparr>])"

definition asset_file :: "(string \<rightharpoonup> string) \<Rightarrow> file_entry list \<Rightarrow> asset \<Rightarrow> file_entry list" where
  "asset_file ma files a =
     (case ma (asset_name a) of
        None \<Rightarrow> plain_asset_file files a
      | Some n \<Rightarrow>
          if n \<noteq> []
          then files @
               [\<lparr>path = asset_name a,
                 chunk = None,
                 name = n,
                 isInitial = Some False,
                 isChunk = False,
                 isAsset = True,
                 isModuleAsset = True\<rparr>]
          else plain_asset_file files a)"

definition classify_assets :: "(string \<rightharpoonup> string) \<Rightarrow> asset list \<Rightarrow> file_entry list \<Rightarrow> file_entry list" where
  "classify_assets ma as files = foldl (asset_file ma) files as"

definition classify :: "plugin \<Rightarrow> compilation \<Rightarrow> file_entry list" where
  "classify p compilation =
     classify_assets (moduleAssets p) (stats_assets compilation)
       (classify_chunks (transformExtensions (options p)) (chunks compilation))"

section \<open>The transform pipeline\<close>

text \<open>Lines 148 to 155; \<open>counts\<close> is \<^verbatim>\<open>emitCountMap\<close> as it is when the filter runs.\<close>

definition isUpdateChunk :: "file_entry \<Rightarrow> bool" where
  "isUpdateChunk f = (indexOf (path f) ''hot-update'' \<ge> 0)"

definition isManifest :: "host \<Rightarrow> string \<Rightarrow> (string \<rightharpoonup> jsnum) \<Rightarrow> file_entry \<Rightarrow> bool" where
  "isManifest h folder counts f = (counts (path_join h folder (name f)) \<noteq> None)"

definition noise_filter :: "host \<Rightarrow> string \<Rightarrow> (string \<rightharpoonup> jsnum) \<Rightarrow> file_entry list \<Rightarrow> file_entry list" where
  "noise_filter h folder counts files =
     filter (\<lambda>f. \<not> isUpdateChunk f \<and> \<not> isManifest h folder counts f) files"

text \<open>Lines 159 to 165.\<close>

definition base_path_stage :: "string option \<Rightarrow> file_entry list \<Rightarrow> file_entry list" where
  "base_path_stage bp files =
     (case bp of
        None \<Rightarrow> files
      | Some b \<Rightarrow> if b \<noteq> [] then map (\<lambda>f. f\<lparr>name := b @ name f\<rparr>) files else files)"

text \<open>Line 83, and lines 167 to 176.\<close>

definition effective_publicPath :: "options \<Rightarrow> compilation \<Rightarrow> string option" where
  "effective_publicPath opts compilation =
     (case publicPath opts of Some pp \<Rightarrow> Some pp | None \<Rightarrow> output_publicPath compilation)"

definition public_path_stage :: "string option \<Rightarrow> file_entry list \<Rightarrow> file_entry list" where
  "public_path_stage pp files =
     (case pp of
        None \<Rightarrow> files
      | Some b \<Rightarrow> if b \<noteq> [] then map (\<lambda>f. f\<lparr>path := b @ path f\<rparr>) files else files)"

text \<open>Lines 178 to 183.\<close>

definition normalize_stage :: "file_entry list \<Rightarrow> file_entry list" where
  "normalize_stage files =
     map (\<lambda>f. f\<lparr>name := replace_backslashes (name f), path := replace_backslashes (path f)\<rparr>) files"

text \<open>Lines 185 to 195.\<close>

definition user_filter :: "options \<Rightarrow> file_entry list \<Rightarrow> file_entry list" where
  "user_filter opts files =
     (case filter_opt opts of
        None \<Rightarrow> files
      | Some keep \<Rightarrow> map snd (filter (\<lambda>(i, f). keep f i files) (enumerate 0 files)))"

definition user_map :: "options \<Rightarrow> file_entry list \<Rightarrow> file_entry list" where
  "user_map opts files =
     (case map_opt opts of
        None \<Rightarrow> files
      | Some g \<Rightarrow> map (\<lambda>(i, f). g f i files) (enumerate 0 files))"

definition user_sort :: "host \<Rightarrow> options \<Rightarrow> file_entry list \<Rightarrow> file_entry list" where
  "user_sort h opts files =
     (case sort_opt opts of None \<Rightarrow> files | Some cmp \<Rightarrow> array_sort h cmp files)"

definition transform ::
  "host \<Rightarrow> plugin \<Rightarrow> (string \<rightharpoonup> jsnum) \<Rightarrow> compilation \<Rightarrow> file_entry list \<Rightarrow> file_entry list" where
  "transform h p counts compilation files =
     user_sort h (options p)
       (user_map (options p)
         (user_filter (options p)
           (normalize_stage
             (public_path_stage (effective_publicPath (options p) compilation)
               (base_path_stage (basePath (options p))
                 (noise_filter h (outputFolder p) counts files))))))"

section \<open>The manifest builder\<close>

text \<open>Line 82, and lines 197 to 207.\<close>

definition seed_or_empty :: "options \<Rightarrow> manifest" where
  "seed_or_empty opts = (case seed opts of None \<Rightarrow> Map.empty | Some s \<Rightarrow> s)"

definition default_build :: "manifest \<Rightarrow> file_entry list \<Rightarrow> manifest" where
  "default_build sd files = foldl (\<lambda>m f. obj_set m (name f) (path f)) sd files"

definition build_manifest :: "options \<Rightarrow> file_entry list \<Rightarrow> manifest" where
  "build_manifest opts files =
     (case generate opts of
        Some g \<Rightarrow> g (seed_or_empty opts) files
      | None \<Rightarrow> default_build (seed_or_empty opts) files)"

section \<open>The emission coordinator\<close>

text \<open>\<^verbatim>\<open>beforeRun\<close> (lines 231 to 239), the handler of the run and watch-run events.\<close>

definition beforeRun :: "plugin \<Rightarrow> world \<Rightarrow> world" where
  "beforeRun p w =
     w\<lparr>emitCountMap :=
         (emitCountMap w)(outputFile p \<mapsto> js_plus_one (js_or_zero (emitCountMap w (outputFile p))))\<rparr>"

text \<open>
  \<^verbatim>\<open>emit\<close> (lines 77 to 229). The default builder writes into the seed object itself,
  so a configured seed holds the manifest afterwards. The manifest handed to the
  after-emit hook is \<open>notified\<close>.
\<close>

record emitted =
  plugin_after :: plugin
  world_after :: world
  compilation_after :: compilation
  notified :: manifest

definition emit_count :: "plugin \<Rightarrow> world \<Rightarrow> jsnum" where
  "emit_count p w = js_minus_one (emitCountMap w (outputFile p))"

definition emit_counts :: "plugin \<Rightarrow> world \<Rightarrow> (string \<rightharpoonup> jsnum)" where
  "emit_counts p w = (emitCountMap w)(outputFile p \<mapsto> emit_count p w)"

definition emit_files :: "host \<Rightarrow> plugin \<Rightarrow> world \<Rightarrow> compilation \<Rightarrow> file_entry list" where
  "emit_files h p w compilation = transform h p (emit_counts p w) compilation (classify p compilation)"

definition emit_manifest :: "host \<Rightarrow> plugin \<Rightarrow> world \<Rightarrow> compilation \<Rightarrow> manifest" where
  "emit_manifest h p w compilation = build_manifest (options p) (emit_files h p w compilation)"

definition seed_after :: "options \<Rightarrow> manifest \<Rightarrow> manifest option" where
  "seed_after opts m =
     (case generate opts of
        Some g \<Rightarrow> seed opts
      | None \<Rightarrow> (case seed opts of None \<Rightarrow> None | Some s \<Rightarrow> Some m))"

definition emit :: "host \<Rightarrow> plugin \<Rightarrow> world \<Rightarrow> compilation \<Rightarrow> emitted" where
  "emit h p w compilation =
     (let emitCount = emit_count p w;
          counts = emit_counts p w;
          manifest = emit_manifest h p w compilation;
          isLastEmit = (emitCount = Num 0);
          output = serialize (options p) manifest
      in \<lparr>plugin_after = p\<lparr>options := (options p)\<lparr>seed := seed_after (options p) manifest\<rparr>\<rparr>,
          world_after =
            \<lparr>emitCountMap = counts,
             written = (if isLastEmit \<and> writeToFileEmit (options p)
                        then written w @ [(outputFile p, output)]
                        else written w)\<rparr>,
          compilation_after =
            compilation\<lparr>assets := (if isLastEmit then (assets compilation)(outputName p \<mapsto> output)
                             else assets compilation)\<rparr>,
          notified = manifest\<rparr>)"

section \<open>Example inputs\<close>

text \<open>
  A host for the examples below: a folder and a name are joined with a slash, as Node joins
  a folder without a trailing slash and a name without dot segments. No example configures
  a comparator or depends on how the manifest is serialized. The example plugin writes
  its manifest to disk as well; the example world is the state of a new process; the
  example compilation has the chunk \<^verbatim>\<open>main\<close> with its script and source map, and
  the asset \<^verbatim>\<open>favicon.ico\<close> that belongs to no chunk. The last compilation has two
  chunks without a name and lists no assets.
\<close>

definition example_host :: host where
  "example_host =
     \<lparr>path_join = (\<lambda>dir n. dir @ ''/'' @ n),
      path_resolve = (\<lambda>dir n. dir @ ''/'' @ n),
      path_relative = (\<lambda>dir f. drop (Suc (length dir)) f),
      path_dirname = (\<lambda>f. ''.''),
      path_basename = (\<lambda>f. f),
      array_sort = (\<lambda>cmp fs. fs),
      json_stringify = (\<lambda>m. ''{}'')\<rparr>"

definition example_plugin :: plugin where
  "example_plugin =
     apply_plugin example_host ((default_options example_host)\<lparr>writeToFileEmit := True\<rparr>) ''/dist''"

definition fresh_world :: world where
  "fresh_world = \<lparr>emitCountMap = Map.empty, written = []\<rparr>"

definition example_compilation :: compilation where
  "example_compilation =
     \<lparr>chunks =
        [\<lparr>chunk_name = Some ''main'', chunk_files = [''main.js'', ''main.js.map''],
          chunk_isOnlyInitial = Some True, chunk_isInitial = None, chunk_initial = None\<rparr>],
      stats_assets =
        [\<lparr>asset_name = ''main.js'', asset_chunks = [NumId 0]\<rparr>,
         \<lparr>asset_name = ''main.js.map'', asset_chunks = [NumId 0]\<rparr>,
         \<lparr>asset_name = ''favicon.ico'', asset_chunks = []\<rparr>],
      output_publicPath = Some [],
      assets = Map.empty\<rparr>"


section \<open>Strings and file types\<close>

lemma pop_nonempty: "xs \<noteq> [] \<Longrightarrow> pop xs = (Some (last xs), butlast xs)"
  by (induction xs) auto

lemma split_on_not_Nil: "split_on sep s \<noteq> []"
  by (induction s) (auto split: list.splits)

lemma split_on_no_sep: "sep \<notin> set s \<Longrightarrow> split_on sep s = [s]"
  by (induction s) auto

lemma split_on_append_sep:
  "split_on sep (xs @ sep # ys) = split_on sep xs @ split_on sep ys"
  by (induction xs) (auto split: list.splits simp: split_on_not_Nil)

lemma strip_query_no_terminator:
  "\<forall>c\<in>set p. \<not> line_terminator c \<Longrightarrow> strip_query p = takeWhile (\<lambda>c. c \<noteq> CHR ''?'') p"
proof -
  assume a: "\<forall>c\<in>set p. \<not> line_terminator c"
  show ?thesis
  proof (cases "dropWhile (\<lambda>c. c \<noteq> CHR ''?'') p")
    case Nil
    have tw: "takeWhile (\<lambda>c. c \<noteq> CHR ''?'') p = p"
      using Nil by (simp add: takeWhile_eq_all_conv)
    show ?thesis unfolding strip_query_def Nil tw by simp
  next
    case (Cons q rest)
    have "set rest \<subseteq> set p"
      by (metis Cons set_dropWhileD set_subset_Cons subsetI subset_trans list.set_intros(2))
    then have "dropWhile (\<lambda>c. \<not> line_terminator c) rest = []"
      using a by auto
    then show ?thesis using Cons by (simp add: strip_query_def)
  qed
qed

text \<open>The file type in terms of the segments between the dots, for every path.\<close>

lemma getFileType_segments:
  "getFileType te p =
     (let segs = split_on CHR ''.'' (strip_query p) in
      if te (last segs)
      then (if 2 \<le> length segs then segs ! (length segs - 2) else ''undefined'') @ ''.'' @ last segs
      else last segs)"
proof -
  let ?segs = "split_on CHR ''.'' (strip_query p)"
  have ne: "?segs \<noteq> []" by (rule split_on_not_Nil)
  have p1: "pop ?segs = (Some (last ?segs), butlast ?segs)" by (rule pop_nonempty[OF ne])
  show ?thesis
  proof (cases "butlast ?segs = []")
    case True
    then have "length ?segs < 2" using ne by (cases ?segs) (auto split: if_splits)
    then show ?thesis using True p1 by (simp add: getFileType_def Let_def)
  next
    case False
    then have l2: "2 \<le> length ?segs" by (cases ?segs) (auto simp: Suc_le_eq)
    have "last (butlast ?segs) = ?segs ! (length ?segs - 2)"
      using False l2 by (simp add: last_conv_nth nth_butlast numeral_2_eq_2)
    then show ?thesis using False p1 l2 by (simp add: getFileType_def Let_def pop_nonempty)
  qed
qed


lemma pop_snoc: "pop (xs @ [x]) = (Some x, xs)"
  by (simp add: pop_nonempty)

lemma split_on_last_segment:
  assumes "sep \<notin> set e" and "front = [] \<or> last front = sep"
  shows "split_on sep (front @ e) = (if front = [] then [] else split_on sep (butlast front)) @ [e]"
proof (cases "front = []")
  case True
  then show ?thesis using assms(1) by (simp add: split_on_no_sep)
next
  case False
  then have "front = butlast front @ [sep]"
    using assms(2) by (metis append_butlast_last_id)
  then have "split_on sep (front @ e) = split_on sep (butlast front @ sep # e)"
    by (metis append_Cons append_Nil append_assoc)
  also have "\<dots> = split_on sep (butlast front) @ [e]"
    using assms(1) by (simp add: split_on_append_sep split_on_no_sep)
  finally show ?thesis using False by simp
qed

lemma pop_snoc2: "pop (xs @ [x, y]) = (Some y, xs @ [x])"
  using pop_snoc[of "xs @ [x]" y] by simp

lemma getFileType_plain:
  assumes "CHR ''.'' \<notin> set ext" and "front = [] \<or> last front = CHR ''.''"
    and "strip_query p = front @ ext" and "\<not> te ext"
  shows "getFileType te p = ext"
  using assms(3,4) split_on_last_segment[OF assms(1,2)]
  by (simp add: getFileType_def Let_def pop_snoc)

lemma getFileType_compound:
  assumes "CHR ''.'' \<notin> set ext" and "CHR ''.'' \<notin> set mid"
    and "front = [] \<or> last front = CHR ''.''"
    and "strip_query p = front @ mid @ ''.'' @ ext" and "te ext"
  shows "getFileType te p = mid @ ''.'' @ ext"
proof -
  have a: "front @ mid @ ''.'' @ ext = (front @ mid) @ CHR ''.'' # ext" by simp
  have "split_on CHR ''.'' (strip_query p) = split_on CHR ''.'' (front @ mid) @ [ext]"
    unfolding assms(4) a split_on_append_sep using assms(1) by (simp add: split_on_no_sep)
  then show ?thesis
    using assms(5) split_on_last_segment[OF assms(2,3)]
    by (simp add: getFileType_def Let_def pop_snoc pop_snoc2)
qed

text \<open>
  Claim C3. The type of a chunk file is taken from its path after the query string is
  stripped (\<open>strip_query\<close>; on a path without a line terminator that removes
  everything from the first question mark on). It is the text after the last dot; when that
  text matches the pass-through pattern it is the segment before it, a dot, and the matched
  text. So \<^verbatim>\<open>bundle.js.map\<close> has type \<^verbatim>\<open>js.map\<close>, \<^verbatim>\<open>style.css\<close> has type
  \<^verbatim>\<open>css\<close> and \<^verbatim>\<open>data.json?v=2\<close> has type \<^verbatim>\<open>json\<close>.
\<close>

theorem getFileType_derivation:
  "(CHR ''.'' \<notin> set ext \<and> (front = [] \<or> last front = CHR ''.'')
      \<and> strip_query p = front @ ext \<and> \<not> te ext
      \<longrightarrow> getFileType te p = ext)
   \<and> (CHR ''.'' \<notin> set ext \<and> CHR ''.'' \<notin> set mid \<and> (front = [] \<or> last front = CHR ''.'')
      \<and> strip_query p = front @ mid @ ''.'' @ ext \<and> te ext
      \<longrightarrow> getFileType te p = mid @ ''.'' @ ext)
   \<and> ((\<forall>c\<in>set p. \<not> line_terminator c) \<longrightarrow> strip_query p = takeWhile (\<lambda>c. c \<noteq> CHR ''?'') p)
   \<and> getFileType transformExtensions_default ''bundle.js.map'' = ''js.map''
   \<and> getFileType transformExtensions_default ''style.css'' = ''css''
   \<and> getFileType transformExtensions_default ''data.json?v=2'' = ''json''"
proof -
  have e1: "getFileType transformExtensions_default ''bundle.js.map'' = ''js.map''"
    by (simp add: getFileType_def strip_query_def either_case_def)
  have e2: "getFileType transformExtensions_default ''style.css'' = ''css''"
    by (simp add: getFileType_def strip_query_def either_case_def)
  have e3: "getFileType transformExtensions_default ''data.json?v=2'' = ''json''"
    by (simp add: getFileType_def strip_query_def either_case_def line_terminator_def)
  have g1: "CHR ''.'' \<notin> set ext \<and> (front = [] \<or> last front = CHR ''.'')
      \<and> strip_query p = front @ ext \<and> \<not> te ext
      \<longrightarrow> getFileType te p = ext"
    using getFileType_plain[of ext front p te] by (intro impI) (elim conjE)
  have g2: "CHR ''.'' \<notin> set ext \<and> CHR ''.'' \<notin> set mid \<and> (front = [] \<or> last front = CHR ''.'')
      \<and> strip_query p = front @ mid @ ''.'' @ ext \<and> te ext
      \<longrightarrow> getFileType te p = mid @ ''.'' @ ext"
    using getFileType_compound[of ext mid front p te] by (intro impI) (elim conjE)
  have g3: "(\<forall>c\<in>set p. \<not> line_terminator c) \<longrightarrow> strip_query p = takeWhile (\<lambda>c. c \<noteq> CHR ''?'') p"
    using strip_query_no_terminator[of p] by (intro impI)
  show ?thesis
    by (intro conjI) (rule g1 g2 g3 e1 e2 e3)+
qed

theorem getFileType_derivation_witness:
  "getFileType transformExtensions_default ''js/app.min.js?x=1.2'' = ''js''
   \<and> getFileType transformExtensions_default ''js/app.min.js.GZ?x=1.2'' = ''js.GZ''
   \<and> strip_query ''js/app.min.js?x=1.2'' = ''js/app.min.js''"
  using getFileType_derivation[of "''js''" "''js/app.min.''" "''js/app.min.js?x=1.2''"
      transformExtensions_default "''GZ''"]
    getFileType_derivation[of "''GZ''" "''js/app.min.''" "''js/app.min.js.GZ?x=1.2''"
      transformExtensions_default "''js''"]
  by (simp add: strip_query_def line_terminator_def either_case_def)

text \<open>
  Claim C10. \<open>getFileType\<close> returns a string for every path: the first \<^verbatim>\<open>pop\<close>
  always finds a segment. A stripped path without a dot is returned whole, unless it
  matches the pass-through pattern itself: then the second \<^verbatim>\<open>pop\<close> gives
  \<^verbatim>\<open>undefined\<close> and the result is \<^verbatim>\<open>undefined.\<close> followed by the path, as
  \<^verbatim>\<open>undefined.map\<close> for the path \<^verbatim>\<open>map\<close>.
\<close>

theorem getFileType_total:
  "fst (pop (split_on CHR ''.'' (strip_query p))) \<noteq> None
   \<and> (CHR ''.'' \<notin> set (strip_query p) \<longrightarrow>
        getFileType te p =
          (if te (strip_query p) then ''undefined.'' @ strip_query p else strip_query p))
   \<and> getFileType transformExtensions_default ''map'' = ''undefined.map''"
proof -
  have a: "fst (pop (split_on CHR ''.'' (strip_query p))) \<noteq> None"
    by (simp add: pop_nonempty split_on_not_Nil)
  have b: "CHR ''.'' \<notin> set (strip_query p) \<longrightarrow>
        getFileType te p =
          (if te (strip_query p) then ''undefined.'' @ strip_query p else strip_query p)"
    by (simp add: getFileType_def Let_def split_on_no_sep)
  have c: "getFileType transformExtensions_default ''map'' = ''undefined.map''"
    by (simp add: getFileType_def strip_query_def either_case_def)
  show ?thesis by (intro conjI) (rule a b c)+
qed

theorem getFileType_total_witness:
  "getFileType transformExtensions_default ''LICENSE?raw'' = ''LICENSE''
   \<and> getFileType transformExtensions_default ''gz'' = ''undefined.gz''"
  using getFileType_total[of "''LICENSE?raw''" transformExtensions_default]
    getFileType_total[of "''gz''" transformExtensions_default]
  by (simp add: strip_query_def line_terminator_def either_case_def)

section \<open>The separator stage\<close>

lemma replace_backslashes_free: "CHR 0x5C \<notin> set (replace_backslashes s)"
  by (auto simp: replace_backslashes_def)

lemma replace_backslashes_id: "CHR 0x5C \<notin> set s \<Longrightarrow> replace_backslashes s = s"
  by (induction s) (auto simp: replace_backslashes_def)

lemma replace_backslashes_idem: "replace_backslashes (replace_backslashes s) = replace_backslashes s"
  by (rule replace_backslashes_id) (rule replace_backslashes_free)

lemma normalize_stage_idem: "normalize_stage (normalize_stage fs) = normalize_stage fs"
  by (simp add: normalize_stage_def replace_backslashes_idem)

lemma normalize_stage_id:
  "\<forall>f\<in>set fs. CHR 0x5C \<notin> set (name f) \<and> CHR 0x5C \<notin> set (path f) \<Longrightarrow> normalize_stage fs = fs"
  by (induction fs) (auto simp: normalize_stage_def replace_backslashes_id)

text \<open>
  Claim C9. The separator stage keeps the list as long as it was and replaces, in the name
  and in the path of every entry, each backslash by a forward slash, leaving every other
  character and every other field as it was. No backslash is left, so applying the stage
  again changes nothing, and a list without backslashes is returned as it is.
\<close>

theorem normalize_stage_slashes:
  "length (normalize_stage fs) = length fs
   \<and> (\<forall>i<length fs. normalize_stage fs ! i =
         (fs ! i)\<lparr>name := replace_backslashes (name (fs ! i)),
                  path := replace_backslashes (path (fs ! i))\<rparr>)
   \<and> length (replace_backslashes s) = length s
   \<and> (\<forall>j<length s. replace_backslashes s ! j = (if s ! j = CHR 0x5C then CHR ''/'' else s ! j))
   \<and> (\<forall>f\<in>set (normalize_stage fs). CHR 0x5C \<notin> set (name f) \<and> CHR 0x5C \<notin> set (path f))
   \<and> normalize_stage (normalize_stage fs) = normalize_stage fs
   \<and> ((\<forall>f\<in>set fs. CHR 0x5C \<notin> set (name f) \<and> CHR 0x5C \<notin> set (path f))
        \<longrightarrow> normalize_stage fs = fs)"
proof -
  have a: "length (normalize_stage fs) = length fs" by (simp add: normalize_stage_def)
  have b: "\<forall>i<length fs. normalize_stage fs ! i =
         (fs ! i)\<lparr>name := replace_backslashes (name (fs ! i)),
                  path := replace_backslashes (path (fs ! i))\<rparr>"
    by (simp add: normalize_stage_def)
  have c: "length (replace_backslashes s) = length s" by (simp add: replace_backslashes_def)
  have d: "\<forall>j<length s. replace_backslashes s ! j = (if s ! j = CHR 0x5C then CHR ''/'' else s ! j)"
    by (simp add: replace_backslashes_def)
  have e: "\<forall>f\<in>set (normalize_stage fs). CHR 0x5C \<notin> set (name f) \<and> CHR 0x5C \<notin> set (path f)"
    by (auto simp: normalize_stage_def replace_backslashes_free)
  have f: "(\<forall>f\<in>set fs. CHR 0x5C \<notin> set (name f) \<and> CHR 0x5C \<notin> set (path f))
        \<longrightarrow> normalize_stage fs = fs"
    using normalize_stage_id by blast
  show ?thesis by (intro conjI) (rule a b c d e f normalize_stage_idem)+
qed

theorem normalize_stage_slashes_witness:
  "normalize_stage
     [\<lparr>path = ''static'' @ [CHR 0x5C] @ ''img'' @ [CHR 0x5C] @ ''logo.png'', chunk = None,
       name = ''img'' @ [CHR 0x5C] @ ''logo.png'', isInitial = Some False,
       isChunk = False, isAsset = True, isModuleAsset = False\<rparr>]
   = [\<lparr>path = ''static/img/logo.png'', chunk = None, name = ''img/logo.png'',
       isInitial = Some False, isChunk = False, isAsset = True, isModuleAsset = False\<rparr>]
   \<and> normalize_stage
     [\<lparr>path = ''static/img/logo.png'', chunk = None, name = ''img/logo.png'',
       isInitial = Some False, isChunk = False, isAsset = True, isModuleAsset = False\<rparr>]
   = [\<lparr>path = ''static/img/logo.png'', chunk = None, name = ''img/logo.png'',
       isInitial = Some False, isChunk = False, isAsset = True, isModuleAsset = False\<rparr>]"
  using normalize_stage_slashes[of
     "[\<lparr>path = ''static/img/logo.png'', chunk = None, name = ''img/logo.png'',
       isInitial = Some False, isChunk = False, isAsset = True, isModuleAsset = False\<rparr>]" "[]"]
  by (simp add: normalize_stage_def replace_backslashes_def)

section \<open>The prefix stages\<close>

text \<open>
  Claim C7. The base-path stage puts the base path (nothing when none is configured) in
  front of the name of every entry and changes no other field, the path included. The
  public-path stage puts the public path in front of the path of every entry and changes no
  other field, the name included. The public path is the option \<^verbatim>\<open>publicPath\<close>, or the
  engine's when the option is \<^verbatim>\<open>null\<close> or unset.
\<close>

theorem path_prefix_stages:
  "length (base_path_stage bp fs) = length fs
   \<and> (\<forall>i<length fs.
         base_path_stage bp fs ! i =
           (fs ! i)\<lparr>name := (case bp of None \<Rightarrow> [] | Some b \<Rightarrow> b) @ name (fs ! i)\<rparr>
         \<and> path (base_path_stage bp fs ! i) = path (fs ! i))
   \<and> length (public_path_stage (effective_publicPath opts c) fs) = length fs
   \<and> (\<forall>i<length fs.
         public_path_stage (effective_publicPath opts c) fs ! i =
           (fs ! i)\<lparr>path := (case effective_publicPath opts c of None \<Rightarrow> [] | Some b \<Rightarrow> b)
                              @ path (fs ! i)\<rparr>
         \<and> name (public_path_stage (effective_publicPath opts c) fs ! i) = name (fs ! i))
   \<and> (publicPath opts = None \<longrightarrow> effective_publicPath opts c = output_publicPath c)
   \<and> (publicPath opts \<noteq> None \<longrightarrow> effective_publicPath opts c = publicPath opts)"
  by (auto simp: base_path_stage_def public_path_stage_def effective_publicPath_def
      split: option.splits)

theorem path_prefix_stages_witness:
  "base_path_stage (Some ''app/'')
     [\<lparr>path = ''main.js'', chunk = None, name = ''main.js'', isInitial = Some False,
       isChunk = False, isAsset = True, isModuleAsset = False\<rparr>]
   = [\<lparr>path = ''main.js'', chunk = None, name = ''app/main.js'', isInitial = Some False,
       isChunk = False, isAsset = True, isModuleAsset = False\<rparr>]
   \<and> public_path_stage
       (effective_publicPath (default_options example_host)
          \<lparr>chunks = [], stats_assets = [], output_publicPath = Some ''/static/'', assets = Map.empty\<rparr>)
     [\<lparr>path = ''main.js'', chunk = None, name = ''main.js'', isInitial = Some False,
       isChunk = False, isAsset = True, isModuleAsset = False\<rparr>]
   = [\<lparr>path = ''/static/main.js'', chunk = None, name = ''main.js'', isInitial = Some False,
       isChunk = False, isAsset = True, isModuleAsset = False\<rparr>]"
  using path_prefix_stages[of "Some ''app/''"
     "[\<lparr>path = ''main.js'', chunk = None, name = ''main.js'', isInitial = Some False,
       isChunk = False, isAsset = True, isModuleAsset = False\<rparr>]"
     "default_options example_host"
     "\<lparr>chunks = [], stats_assets = [], output_publicPath = Some ''/static/'', assets = Map.empty\<rparr>"]
  by (simp add: base_path_stage_def public_path_stage_def effective_publicPath_def
      default_options_def)

section \<open>The default builder\<close>



lemma default_build_snoc:
  "default_build sd (fs @ [f]) = obj_set (default_build sd fs) (name f) (path f)"
  by (simp add: default_build_def)




text \<open>
  A file named \<^verbatim>\<open>__proto__\<close> adds no key to a manifest that has none of that name.
\<close>

lemma default_build_proto:
  "sd ''__proto__'' = None \<Longrightarrow> default_build sd fs ''__proto__'' = None"
proof (induction fs rule: rev_induct)
  case Nil
  then show ?case by (simp add: default_build_def)
next
  case (snoc f fs)
  then show ?case
    unfolding default_build_snoc by (simp add: obj_set_def)
qed




section \<open>The noise filter\<close>

lemma sublist_indexOf_from: "(indexOf_from i s t \<ge> 0) = sublist t s"
  by (induction i s t rule: indexOf_from.induct) (auto simp: sublist_Cons_right)

lemma isUpdateChunk_iff: "isUpdateChunk f = (\<exists>pre post. path f = pre @ ''hot-update'' @ post)"
  by (simp add: isUpdateChunk_def indexOf_def sublist_indexOf_from sublist_def)

lemma emit_counts_own: "emit_counts p w (outputFile p) \<noteq> None"
  by (simp add: emit_counts_def)

text \<open>
  Claim C5. The noise filter keeps the entries in order and drops exactly those whose path
  contains \<^verbatim>\<open>hot-update\<close> or whose name, joined onto the output folder, is a key of
  \<^verbatim>\<open>emitCountMap\<close>. In \<open>emit\<close> the filter runs on the classified entries after the
  counter of this plugin's own output file has been stored, so no entry that is joined to
  that file passes.
\<close>

theorem noise_filter_drops:
  "noise_filter h folder counts fs =
     filter (\<lambda>f. \<not> ((\<exists>pre post. path f = pre @ ''hot-update'' @ post)
                    \<or> path_join h folder (name f) \<in> dom counts)) fs
   \<and> emit_files h p w c =
       user_sort h (options p) (user_map (options p) (user_filter (options p)
         (normalize_stage (public_path_stage (effective_publicPath (options p) c)
           (base_path_stage (basePath (options p))
             (noise_filter h (outputFolder p) (emit_counts p w) (classify p c)))))))
   \<and> outputFile p \<in> dom (emit_counts p w)
   \<and> (\<forall>f\<in>set (noise_filter h (outputFolder p) (emit_counts p w) (classify p c)).
         path_join h (outputFolder p) (name f) \<noteq> outputFile p)"
proof -
  have a: "noise_filter h folder counts fs =
     filter (\<lambda>f. \<not> ((\<exists>pre post. path f = pre @ ''hot-update'' @ post)
                    \<or> path_join h folder (name f) \<in> dom counts)) fs"
    unfolding noise_filter_def isUpdateChunk_iff isManifest_def
    by (rule filter_cong) auto
  have b: "emit_files h p w c =
       user_sort h (options p) (user_map (options p) (user_filter (options p)
         (normalize_stage (public_path_stage (effective_publicPath (options p) c)
           (base_path_stage (basePath (options p))
             (noise_filter h (outputFolder p) (emit_counts p w) (classify p c)))))))"
    by (simp add: emit_files_def transform_def)
  have c: "outputFile p \<in> dom (emit_counts p w)"
    using emit_counts_own by blast
  have d: "\<forall>f\<in>set (noise_filter h (outputFolder p) (emit_counts p w) (classify p c)).
         path_join h (outputFolder p) (name f) \<noteq> outputFile p"
    using emit_counts_own[of p w] by (auto simp: noise_filter_def isManifest_def)
  show ?thesis by (intro conjI) (rule a b c d)+
qed

theorem noise_filter_drops_witness:
  "noise_filter example_host ''/dist'' [''/dist/manifest.json'' \<mapsto> Num 0]
     [\<lparr>path = ''main.js'', chunk = None, name = ''main.js'', isInitial = Some False,
       isChunk = False, isAsset = True, isModuleAsset = False\<rparr>,
      \<lparr>path = ''main.abc.hot-update.js'', chunk = None, name = ''main.abc.hot-update.js'',
       isInitial = Some False, isChunk = False, isAsset = True, isModuleAsset = False\<rparr>,
      \<lparr>path = ''manifest.json'', chunk = None, name = ''manifest.json'', isInitial = Some False,
       isChunk = False, isAsset = True, isModuleAsset = False\<rparr>]
   = [\<lparr>path = ''main.js'', chunk = None, name = ''main.js'', isInitial = Some False,
       isChunk = False, isAsset = True, isModuleAsset = False\<rparr>]
   \<and> noise_filter example_host ''/dist''
       (emit_counts (apply_plugin example_host (default_options example_host) ''/dist'')
          \<lparr>emitCountMap = Map.empty, written = []\<rparr>)
       (classify (apply_plugin example_host (default_options example_host) ''/dist'')
          \<lparr>chunks = [],
           stats_assets = [\<lparr>asset_name = ''manifest.json'', asset_chunks = []\<rparr>],
           output_publicPath = None, assets = Map.empty\<rparr>)
     = []"
  using noise_filter_drops[of example_host "''/dist''" "[''/dist/manifest.json'' \<mapsto> Num 0]"
     "[\<lparr>path = ''main.js'', chunk = None, name = ''main.js'', isInitial = Some False,
       isChunk = False, isAsset = True, isModuleAsset = False\<rparr>,
      \<lparr>path = ''main.abc.hot-update.js'', chunk = None, name = ''main.abc.hot-update.js'',
       isInitial = Some False, isChunk = False, isAsset = True, isModuleAsset = False\<rparr>,
      \<lparr>path = ''manifest.json'', chunk = None, name = ''manifest.json'', isInitial = Some False,
       isChunk = False, isAsset = True, isModuleAsset = False\<rparr>]"
     "apply_plugin example_host (default_options example_host) ''/dist''"
     "\<lparr>emitCountMap = Map.empty, written = []\<rparr>"
     "\<lparr>chunks = [],
           stats_assets = [\<lparr>asset_name = ''manifest.json'', asset_chunks = []\<rparr>],
           output_publicPath = None, assets = Map.empty\<rparr>"]
  by (simp add: noise_filter_def isUpdateChunk_def isManifest_def indexOf_def example_host_def
      emit_counts_def emit_count_def apply_plugin_def default_options_def classify_def
      classify_assets_def classify_chunks_def asset_file_def plain_asset_file_def)

section \<open>Properties of the classifier\<close>

lemma asset_file_append: "asset_file ma fs a = fs @ asset_file ma [] a"
  by (simp add: asset_file_def plain_asset_file_def split: option.splits)

lemma classify_assets_snoc:
  "classify_assets ma (as @ [a]) fs = asset_file ma (classify_assets ma as fs) a"
  by (simp add: classify_assets_def)

lemma classify_assets_Cons:
  "classify_assets ma (a # as) fs = classify_assets ma as (asset_file ma fs a)"
  by (simp add: classify_assets_def)

lemma classify_assets_append: "classify_assets ma as fs = fs @ classify_assets ma as []"
proof (induction as rule: rev_induct)
  case Nil
  then show ?case by (simp add: classify_assets_def)
next
  case (snoc a as)
  have "classify_assets ma (as @ [a]) fs = classify_assets ma as fs @ asset_file ma [] a"
    using asset_file_append[of ma "classify_assets ma as fs" a] by (simp add: classify_assets_snoc)
  also have "\<dots> = fs @ classify_assets ma as [] @ asset_file ma [] a"
    using snoc by simp
  also have "\<dots> = fs @ classify_assets ma (as @ [a]) []"
    using asset_file_append[of ma "classify_assets ma as []" a] by (simp add: classify_assets_snoc)
  finally show ?case .
qed

lemma module_asset_classified:
  assumes "a \<in> set as" and "ma (asset_name a) = Some n" and "n \<noteq> []"
  shows "\<lparr>path = asset_name a, chunk = None, name = n, isInitial = Some False,
           isChunk = False, isAsset = True, isModuleAsset = True\<rparr>
         \<in> set (classify_assets ma as fs)"
  using assms(1)
proof (induction as rule: rev_induct)
  case Nil
  then show ?case by simp
next
  case (snoc b bs)
  show ?case
  proof (cases "a = b")
    case True
    then show ?thesis using assms(2,3)
      by (simp add: classify_assets_snoc asset_file_def)
  next
    case False
    then have "a \<in> set bs" using snoc.prems by simp
    then have "\<lparr>path = asset_name a, chunk = None, name = n, isInitial = Some False,
           isChunk = False, isAsset = True, isModuleAsset = True\<rparr>
         \<in> set (classify_assets ma bs fs)" by (rule snoc.IH)
    then show ?thesis
      using asset_file_append[of ma "classify_assets ma bs fs" b]
      by (simp add: classify_assets_snoc)
  qed
qed

lemma inner_fold_flags:
  "\<forall>e\<in>set fs. P e \<Longrightarrow> (\<And>e. isChunk e \<and> \<not> isAsset e \<and> \<not> isModuleAsset e \<Longrightarrow> P e)
   \<Longrightarrow> \<forall>e\<in>set (foldl (chunk_file te c) fs ps). P e"
proof (induction ps arbitrary: fs)
  case Nil
  then show ?case by simp
next
  case (Cons q qs)
  have "\<forall>e\<in>set (chunk_file te c fs q). P e"
    using Cons.prems by (simp add: chunk_file_def)
  then show ?case using Cons.IH Cons.prems(2) by simp
qed

lemma outer_fold_flags:
  "\<forall>e\<in>set fs. P e \<Longrightarrow> (\<And>e. isChunk e \<and> \<not> isAsset e \<and> \<not> isModuleAsset e \<Longrightarrow> P e)
   \<Longrightarrow> \<forall>e\<in>set (foldl (\<lambda>files c. foldl (chunk_file te c) files (chunk_files c)) fs cs). P e"
proof (induction cs arbitrary: fs)
  case Nil
  then show ?case by simp
next
  case (Cons c cs)
  have "\<forall>e\<in>set (foldl (chunk_file te c) fs (chunk_files c)). P e"
    using Cons.prems by (rule inner_fold_flags)
  then show ?case using Cons.IH Cons.prems(2) by simp
qed

lemma classify_chunks_flags:
  "\<forall>e\<in>set (classify_chunks te cs). isChunk e \<and> \<not> isAsset e \<and> \<not> isModuleAsset e"
  unfolding classify_chunks_def by (rule outer_fold_flags) simp_all

lemma classify_assets_flags:
  "\<forall>e\<in>set (classify_assets ma as []). \<not> isChunk e \<and> isAsset e"
proof (induction as rule: rev_induct)
  case Nil
  then show ?case by (simp add: classify_assets_def)
next
  case (snoc a as)
  have "\<forall>e\<in>set (asset_file ma [] a). \<not> isChunk e \<and> isAsset e"
    by (simp add: asset_file_def plain_asset_file_def split: option.splits)
  then show ?case
    using snoc asset_file_append[of ma "classify_assets ma as []" a]
    by (auto simp: classify_assets_snoc)
qed

text \<open>
  Claim C2, as the code has it. An emitted asset whose name is a key of the module-asset
  map, with a mapped name that is not empty, gives an entry with that mapped name,
  \<open>isModuleAsset\<close> true and \<open>isAsset\<close> true as well (\<open>isChunk\<close> false). Every
  classified entry has one of three flag patterns: a chunk file (\<open>isChunk\<close> alone), a
  plain asset (\<open>isAsset\<close> alone) or a module asset (\<open>isAsset\<close> and
  \<open>isModuleAsset\<close>).
\<close>

theorem module_asset_entry:
  "(a \<in> set (stats_assets c) \<and> moduleAssets p (asset_name a) = Some n \<and> n \<noteq> [] \<longrightarrow>
      \<lparr>path = asset_name a, chunk = None, name = n, isInitial = Some False,
        isChunk = False, isAsset = True, isModuleAsset = True\<rparr> \<in> set (classify p c))
   \<and> (\<forall>e\<in>set (classify p c).
         (isChunk e \<and> \<not> isAsset e \<and> \<not> isModuleAsset e)
         \<or> (\<not> isChunk e \<and> isAsset e \<and> \<not> isModuleAsset e)
         \<or> (\<not> isChunk e \<and> isAsset e \<and> isModuleAsset e))"
proof -
  have a: "\<lparr>path = asset_name a, chunk = None, name = n, isInitial = Some False,
        isChunk = False, isAsset = True, isModuleAsset = True\<rparr> \<in> set (classify p c)"
    if "a \<in> set (stats_assets c)" "moduleAssets p (asset_name a) = Some n" "n \<noteq> []"
    unfolding classify_def using that by (rule module_asset_classified)
  have split: "classify p c =
      classify_chunks (transformExtensions (options p)) (chunks c)
      @ classify_assets (moduleAssets p) (stats_assets c) []"
    unfolding classify_def by (rule classify_assets_append)
  have b: "\<forall>e\<in>set (classify p c).
         (isChunk e \<and> \<not> isAsset e \<and> \<not> isModuleAsset e)
         \<or> (\<not> isChunk e \<and> isAsset e \<and> \<not> isModuleAsset e)
         \<or> (\<not> isChunk e \<and> isAsset e \<and> isModuleAsset e)"
    unfolding split
    using classify_chunks_flags[of "transformExtensions (options p)" "chunks c"]
      classify_assets_flags[of "moduleAssets p" "stats_assets c"]
    by auto
  show ?thesis using a b by blast
qed

theorem module_asset_entry_witness:
  "\<lparr>path = ''static/logo.abc123.png'', chunk = None, name = ''static/logo.png'',
     isInitial = Some False, isChunk = False, isAsset = True, isModuleAsset = True\<rparr>
   \<in> set (classify
        \<lparr>options = default_options example_host, outputFolder = ''/dist'',
         outputFile = ''/dist/manifest.json'', outputName = ''manifest.json'',
         moduleAssets = [''static/logo.abc123.png'' \<mapsto> ''static/logo.png'']\<rparr>
        \<lparr>chunks = [],
         stats_assets = [\<lparr>asset_name = ''static/logo.abc123.png'', asset_chunks = []\<rparr>],
         output_publicPath = None, assets = Map.empty\<rparr>)"
  using module_asset_entry[of "\<lparr>asset_name = ''static/logo.abc123.png'', asset_chunks = []\<rparr>"
        "\<lparr>chunks = [],
         stats_assets = [\<lparr>asset_name = ''static/logo.abc123.png'', asset_chunks = []\<rparr>],
         output_publicPath = None, assets = Map.empty\<rparr>"
        "\<lparr>options = default_options example_host, outputFolder = ''/dist'',
         outputFile = ''/dist/manifest.json'', outputName = ''manifest.json'',
         moduleAssets = [''static/logo.abc123.png'' \<mapsto> ''static/logo.png'']\<rparr>"
        "''static/logo.png''"]
  by simp

text \<open>
  Claim C2 as stated fails: the entry of a module asset has \<open>isAsset\<close> true, not false: the asset
  \<^verbatim>\<open>static/logo.abc123.png\<close>, mapped to \<^verbatim>\<open>static/logo.png\<close>.
\<close>

theorem module_asset_isAsset_counterexample:
  "classify_assets [''static/logo.abc123.png'' \<mapsto> ''static/logo.png'']
     [\<lparr>asset_name = ''static/logo.abc123.png'', asset_chunks = []\<rparr>] []
   = [\<lparr>path = ''static/logo.abc123.png'', chunk = None, name = ''static/logo.png'',
       isInitial = Some False, isChunk = False, isAsset = True, isModuleAsset = True\<rparr>]
   \<and> isAsset (hd (classify_assets [''static/logo.abc123.png'' \<mapsto> ''static/logo.png'']
         [\<lparr>asset_name = ''static/logo.abc123.png'', asset_chunks = []\<rparr>] [])) \<noteq> False"
  by (simp add: classify_assets_def asset_file_def)

section \<open>Properties of the emission coordinator\<close>

lemma emit_world_counts:
  "emitCountMap (world_after (emit h p w c)) =
     (emitCountMap w)(outputFile p \<mapsto> js_minus_one (emitCountMap w (outputFile p)))"
  by (simp add: emit_def Let_def emit_counts_def emit_count_def)

lemma emit_written:
  "written (world_after (emit h p w c)) =
     (if js_minus_one (emitCountMap w (outputFile p)) = Num 0 \<and> writeToFileEmit (options p)
      then written w @ [(outputFile p, serialize (options p) (notified (emit h p w c)))]
      else written w)"
  by (simp add: emit_def Let_def emit_count_def)

lemma emit_assets:
  "assets (compilation_after (emit h p w c)) =
     (if js_minus_one (emitCountMap w (outputFile p)) = Num 0
      then (assets c)(outputName p \<mapsto> serialize (options p) (notified (emit h p w c)))
      else assets c)"
  by (simp add: emit_def Let_def emit_count_def)


lemma emit_notified: "notified (emit h p w c) = emit_manifest h p w c"
  by (simp add: emit_def Let_def)



lemma js_minus_one_zero: "(js_minus_one v = Num 0) = (v = Some (Num 1))"
  by (cases v rule: js_minus_one.cases) auto




text \<open>
  Claim C8. An emit that finds no counter, \<^verbatim>\<open>NaN\<close> or a counter that is not positive
  runs to its end: it stores \<^verbatim>\<open>NaN\<close> or the counter minus one, which is not \<open>0\<close>,
  leaves the assets and the disk as they are, and hands the manifest to the after-emit
  hook. Whenever the stored value is not \<open>0\<close>, nothing is written.
\<close>

theorem unmatched_emit_skips_write:
  "((emitCountMap w (outputFile p) = None \<or> emitCountMap w (outputFile p) = Some NaN
      \<or> (\<exists>n. n \<le> 0 \<and> emitCountMap w (outputFile p) = Some (Num n)))
     \<longrightarrow> written (world_after (emit h p w c)) = written w
         \<and> assets (compilation_after (emit h p w c)) = assets c
         \<and> emitCountMap (world_after (emit h p w c)) (outputFile p) =
             Some (case emitCountMap w (outputFile p) of
                     Some (Num n) \<Rightarrow> Num (n - 1)
                   | _ \<Rightarrow> NaN)
         \<and> emitCountMap (world_after (emit h p w c)) (outputFile p) \<noteq> Some (Num 0)
         \<and> notified (emit h p w c) = emit_manifest h p w c)
   \<and> (emit_count p w \<noteq> Num 0
     \<longrightarrow> written (world_after (emit h p w c)) = written w
         \<and> assets (compilation_after (emit h p w c)) = assets c)"
proof -
  have a: "written (world_after (emit h p w c)) = written w
         \<and> assets (compilation_after (emit h p w c)) = assets c
         \<and> emitCountMap (world_after (emit h p w c)) (outputFile p) =
             Some (case emitCountMap w (outputFile p) of
                     Some (Num n) \<Rightarrow> Num (n - 1)
                   | _ \<Rightarrow> NaN)
         \<and> emitCountMap (world_after (emit h p w c)) (outputFile p) \<noteq> Some (Num 0)
         \<and> notified (emit h p w c) = emit_manifest h p w c"
    if "emitCountMap w (outputFile p) = None \<or> emitCountMap w (outputFile p) = Some NaN
      \<or> (\<exists>n. n \<le> 0 \<and> emitCountMap w (outputFile p) = Some (Num n))"
    using that
    by (auto simp: emit_written emit_assets emit_world_counts emit_notified js_minus_one_zero)
  have b: "written (world_after (emit h p w c)) = written w
         \<and> assets (compilation_after (emit h p w c)) = assets c"
    if "emit_count p w \<noteq> Num 0"
    using that by (simp add: emit_written emit_assets emit_count_def)
  show ?thesis using a b by blast
qed

theorem unmatched_emit_skips_write_witness:
  "written (world_after (emit example_host example_plugin fresh_world example_compilation)) = []
   \<and> assets (compilation_after (emit example_host example_plugin fresh_world example_compilation))
       = Map.empty
   \<and> emitCountMap (world_after (emit example_host example_plugin fresh_world example_compilation))
       ''/dist/manifest.json'' = Some NaN"
  using unmatched_emit_skips_write[of fresh_world example_plugin example_host example_compilation]
  by (simp add: fresh_world_def example_plugin_def apply_plugin_def default_options_def
      example_host_def example_compilation_def)

section \<open>End to end\<close>

lemma classify_assets_no_modules:
  "classify_assets Map.empty as fs =
     fs @ map (\<lambda>a. \<lparr>path = asset_name a, chunk = None, name = asset_name a,
                      isInitial = Some False, isChunk = False, isAsset = True,
                      isModuleAsset = False\<rparr>)
            (filter (\<lambda>a. asset_chunks a = []) as)"
  by (induction as arbitrary: fs)
     (simp_all add: classify_assets_Cons asset_file_def plain_asset_file_def,
      simp add: classify_assets_def)

text \<open>
  Claim C6. The plugin has the default options and no module assets. The build has the one
  chunk \<^verbatim>\<open>main\<close> with the files \<^verbatim>\<open>main.js\<close> and \<^verbatim>\<open>main.js.map\<close>; of the listed
  assets only \<^verbatim>\<open>favicon.ico\<close> belongs to no chunk; the engine has no public path; and
  none of the three names, joined onto the output folder, is a tracked manifest file. Then
  the manifest that \<open>emit\<close> builds maps each of the three names to itself.
\<close>

theorem end_to_end_manifest:
  assumes "p = apply_plugin h (default_options h) folder"
    and "output_publicPath c = None \<or> output_publicPath c = Some []"
    and "chunks c =
          [\<lparr>chunk_name = Some ''main'', chunk_files = [''main.js'', ''main.js.map''],
            chunk_isOnlyInitial = oi, chunk_isInitial = ii, chunk_initial = i0\<rparr>]"
    and "filter (\<lambda>a. asset_chunks a = []) (stats_assets c) =
          [\<lparr>asset_name = ''favicon.ico'', asset_chunks = []\<rparr>]"
    and "emit_counts p w (path_join h folder ''main.js'') = None"
    and "emit_counts p w (path_join h folder ''main.js.map'') = None"
    and "emit_counts p w (path_join h folder ''favicon.ico'') = None"
  shows "notified (emit h p w c) =
           [''main.js'' \<mapsto> ''main.js'', ''main.js.map'' \<mapsto> ''main.js.map'',
            ''favicon.ico'' \<mapsto> ''favicon.ico'']"
proof -
  let ?c = "\<lparr>chunk_name = Some ''main'', chunk_files = [''main.js'', ''main.js.map''],
            chunk_isOnlyInitial = oi, chunk_isInitial = ii, chunk_initial = i0\<rparr>"
  let ?e1 = "\<lparr>path = ''main.js'', chunk = Some ?c, name = ''main.js'',
              isInitial = chunk_initial_flag ?c, isChunk = True, isAsset = False,
              isModuleAsset = False\<rparr>"
  let ?e2 = "\<lparr>path = ''main.js.map'', chunk = Some ?c, name = ''main.js.map'',
              isInitial = chunk_initial_flag ?c, isChunk = True, isAsset = False,
              isModuleAsset = False\<rparr>"
  let ?e3 = "\<lparr>path = ''favicon.ico'', chunk = None, name = ''favicon.ico'',
              isInitial = Some False, isChunk = False, isAsset = True,
              isModuleAsset = False\<rparr>"
  have t1: "getFileType transformExtensions_default ''main.js'' = ''js''"
    by (simp add: getFileType_def strip_query_def either_case_def)
  have t2: "getFileType transformExtensions_default ''main.js.map'' = ''js.map''"
    by (simp add: getFileType_def strip_query_def either_case_def)
  have opts: "options p = default_options h" "outputFolder p = folder"
    "moduleAssets p = Map.empty"
    by (simp_all add: assms(1) apply_plugin_def)
  have cc: "classify_chunks transformExtensions_default (chunks c) = [?e1, ?e2]"
    by (simp add: assms(3) classify_chunks_def chunk_file_def t1 t2)
  have cl: "classify p c = [?e1, ?e2, ?e3]"
    by (simp add: classify_def opts default_options_def cc classify_assets_no_modules assms(4))
  have nf: "noise_filter h folder (emit_counts p w) [?e1, ?e2, ?e3] = [?e1, ?e2, ?e3]"
    using assms(5,6,7)
    by (simp add: noise_filter_def isManifest_def isUpdateChunk_def indexOf_def)
  have pp: "public_path_stage (effective_publicPath (default_options h) c) fs = fs" for fs
    using assms(2) by (auto simp: public_path_stage_def effective_publicPath_def default_options_def)
  have nm: "normalize_stage [?e1, ?e2, ?e3] = [?e1, ?e2, ?e3]"
    by (simp add: normalize_stage_def replace_backslashes_def)
  have bp: "base_path_stage (basePath (default_options h)) fs = fs" for fs
    by (simp add: base_path_stage_def default_options_def)
  have us: "user_sort h (default_options h) fs = fs"
    "user_map (default_options h) fs = fs"
    "user_filter (default_options h) fs = fs" for fs
    by (simp_all add: user_filter_def user_map_def user_sort_def default_options_def)
  have fs: "emit_files h p w c = [?e1, ?e2, ?e3]"
    by (simp only: emit_files_def transform_def cl opts nf bp pp nm us)
  show ?thesis
    unfolding emit_notified emit_manifest_def fs opts
    by (simp add: build_manifest_def default_build_def obj_set_def seed_or_empty_def
        default_options_def)
qed

theorem end_to_end_manifest_witness:
  "notified (emit example_host (apply_plugin example_host (default_options example_host) ''/dist'')
      (beforeRun (apply_plugin example_host (default_options example_host) ''/dist'') fresh_world)
      example_compilation) =
     [''main.js'' \<mapsto> ''main.js'', ''main.js.map'' \<mapsto> ''main.js.map'',
      ''favicon.ico'' \<mapsto> ''favicon.ico'']"
  using end_to_end_manifest[of "apply_plugin example_host (default_options example_host) ''/dist''"
      example_host "''/dist''" example_compilation "Some True" None None
      "beforeRun (apply_plugin example_host (default_options example_host) ''/dist'') fresh_world"]
  by (simp add: example_compilation_def example_host_def fresh_world_def beforeRun_def
      apply_plugin_def default_options_def emit_counts_def emit_count_def)

end
